theory Spec2Isabelle
  imports Main "HOL-Library.Char_ord" "HOL-Library.List_Lexorder"
begin

section \<open>Python text and parsed JSON\<close>

text \<open>
  A Python \<open>str\<close> is a sequence of Unicode code points, so text is a list of code points
  here: the en dash of \<open>process_duration_column\<close> is the single code point 8211, as it is
  one character for \<open>split\<close> and \<open>in\<close>. \<open>U\<close> turns an ASCII literal into such a text.
\<close>

type_synonym pystr = "nat list"

abbreviation U :: "string \<Rightarrow> pystr" where
  "U s \<equiv> map of_char s"

text \<open>
  What \<open>json.loads\<close> returns: \<open>None\<close>, a bool, a number, a str, a list, or a dict (an
  association list with the keys in insertion order; \<open>json.loads\<close> leaves no duplicate
  key). A number is an integer here; floats are not represented. (A float has no \<open>get\<close>,
  cannot be iterated and is false exactly when zero, as an integer; it differs in how
  \<open>str\<close> renders it: \<open>str(100.0)\<close> is \<open>100.0\<close>.)
\<close>

datatype json =
    JNull
  | JBool bool
  | JNum int
  | JStr pystr
  | JArr "json list"
  | JObj "(pystr \<times> json) list"

type_synonym pydict = "(pystr \<times> json) list"

text \<open>\<open>d.get(k, default)\<close>\<close>

definition dict_get :: "pydict \<Rightarrow> pystr \<Rightarrow> json \<Rightarrow> json" where
  "dict_get d k dflt = (case map_of d k of Some v \<Rightarrow> v | None \<Rightarrow> dflt)"

text \<open>Python truthiness, as \<open>if v:\<close> and \<open>v or {}\<close> test it.\<close>

fun truthy :: "json \<Rightarrow> bool" where
  "truthy JNull = False"
| "truthy (JBool b) = b"
| "truthy (JNum n) = (n \<noteq> 0)"
| "truthy (JStr s) = (s \<noteq> [])"
| "truthy (JArr xs) = (xs \<noteq> [])"
| "truthy (JObj kvs) = (kvs \<noteq> [])"

fun is_dict :: "json \<Rightarrow> bool" where
  "is_dict (JObj d) = True"
| "is_dict _ = False"

text \<open>
  The exceptions the loop body can raise: \<open>experience.get\<close> on a value that is not a dict
  (AttributeError) and \<open>for ... in\<close> over a number or a bool (TypeError).
\<close>

datatype py_error = AttributeError | TypeError

text \<open>
  \<open>for x in v\<close>: a list yields its elements, a dict its keys, a str its characters; a
  number or a bool is not iterable. (\<open>None\<close> is never iterated: it is not truthy.)
\<close>

fun py_iter :: "json \<Rightarrow> py_error + json list" where
  "py_iter (JArr xs) = Inr xs"
| "py_iter (JObj kvs) = Inr (map (\<lambda>kv. JStr (fst kv)) kvs)"
| "py_iter (JStr s) = Inr (map (\<lambda>c. JStr [c]) s)"
| "py_iter v = Inl TypeError"

text \<open>
  \<open>str(v)\<close>, as the f-string of the graduation text and \<open>str(mobile[0])\<close> apply it. Python
  prints a list or a dict through \<open>repr\<close>, with its quoting and escaping rules; that
  rendering is the parameter \<open>repr\<close>.
\<close>

fun digits :: "nat \<Rightarrow> pystr" where
  "digits n = (if n < 10 then [48 + n] else digits (n div 10) @ [48 + n mod 10])"

declare digits.simps [simp del]

definition str_int :: "int \<Rightarrow> pystr" where
  "str_int i = (if i < 0 then 45 # digits (nat (- i)) else digits (nat i))"

fun py_str :: "(json \<Rightarrow> pystr) \<Rightarrow> json \<Rightarrow> pystr" where
  "py_str repr JNull = U ''None''"
| "py_str repr (JBool b) = (if b then U ''True'' else U ''False'')"
| "py_str repr (JNum n) = str_int n"
| "py_str repr (JStr s) = s"
| "py_str repr v = repr v"

text \<open>\<open>s.strip(cs)\<close>: drop every leading and trailing character that occurs in \<open>cs\<close>.\<close>

definition strip_chars :: "pystr \<Rightarrow> pystr \<Rightarrow> pystr" where
  "strip_chars cs s =
     rev (dropWhile (\<lambda>c. c \<in> set cs) (rev (dropWhile (\<lambda>c. c \<in> set cs) s)))"


section \<open>Flattening a parsed resume (\<open>process_resume_json_files\<close>)\<close>

text \<open>One element of \<open>all_resumes\<close>: the values are whatever the JSON held.\<close>

record resume_row =
  Name :: json
  Mobile :: json
  Email :: json
  Graduation :: pystr
  Company :: json
  Role :: json
  Duration :: json

text \<open>Lines 122 to 125: the graduation text of a record.\<close>

definition graduation_str :: "(json \<Rightarrow> pystr) \<Rightarrow> pydict \<Rightarrow> pystr" where
  "graduation_str repr resume_data =
     (let g = dict_get resume_data (U ''Graduation'') (JObj []);
          graduation_info = (if truthy g then g else JObj []);
          graduation_degree =
            (case graduation_info of
               JObj d \<Rightarrow> dict_get d (U ''Degree'') (JStr [])
             | _ \<Rightarrow> JStr []);
          graduation_institution =
            (case graduation_info of
               JObj d \<Rightarrow> dict_get d (U ''Institution'') (JStr [])
             | _ \<Rightarrow> JStr [])
      in strip_chars (U '' -'')
           (py_str repr graduation_degree @ U '' - '' @ py_str repr graduation_institution))"

text \<open>Lines 129 to 137: the row of one work experience that is a dict.\<close>

definition experience_row :: "(json \<Rightarrow> pystr) \<Rightarrow> pydict \<Rightarrow> pydict \<Rightarrow> resume_row" where
  "experience_row repr resume_data experience =
     \<lparr> Name = dict_get resume_data (U ''Name'') (JStr []),
       Mobile = dict_get resume_data (U ''Mobile'') (JStr []),
       Email = dict_get resume_data (U ''Email'') (JStr []),
       Graduation = graduation_str repr resume_data,
       Company = dict_get experience (U ''Company'') (JStr []),
       Role = dict_get experience (U ''Role'') (JStr []),
       Duration = dict_get experience (U ''Duration'') (JStr []) \<rparr>"

text \<open>Lines 140 to 148: the single row of a record without work experiences.\<close>

definition placeholder_row :: "(json \<Rightarrow> pystr) \<Rightarrow> pydict \<Rightarrow> resume_row" where
  "placeholder_row repr resume_data =
     \<lparr> Name = dict_get resume_data (U ''Name'') (JStr []),
       Mobile = dict_get resume_data (U ''Mobile'') (JStr []),
       Email = dict_get resume_data (U ''Email'') (JStr []),
       Graduation = graduation_str repr resume_data,
       Company = JStr [],
       Role = JStr [],
       Duration = JStr [] \<rparr>"

text \<open>
  The \<open>for experience in ...\<close> loop (lines 128 to 138). Each row is appended to
  \<open>all_resumes\<close> as soon as it is built, so the rows appended before an exception stay
  in the list. The result is the list and the exception that ended the loop, if any.
\<close>

fun append_experiences ::
  "(json \<Rightarrow> pystr) \<Rightarrow> pydict \<Rightarrow> json list \<Rightarrow> resume_row list \<Rightarrow> resume_row list \<times> py_error option"
where
  "append_experiences repr resume_data [] all_resumes = (all_resumes, None)"
| "append_experiences repr resume_data (JObj experience # rest) all_resumes =
     append_experiences repr resume_data rest
       (all_resumes @ [experience_row repr resume_data experience])"
| "append_experiences repr resume_data (v # rest) all_resumes = (all_resumes, Some AttributeError)"

text \<open>Lines 127 to 149: the rows of one record (a dict), appended to \<open>all_resumes\<close>.\<close>

definition append_resume_rows ::
  "(json \<Rightarrow> pystr) \<Rightarrow> pydict \<Rightarrow> resume_row list \<Rightarrow> resume_row list \<times> py_error option"
where
  "append_resume_rows repr resume_data all_resumes =
     (let w = dict_get resume_data (U ''Work Experiences'') JNull in
      if truthy w then
        (case py_iter w of
           Inl e \<Rightarrow> (all_resumes, Some e)
         | Inr experiences \<Rightarrow> append_experiences repr resume_data experiences all_resumes)
      else (all_resumes @ [placeholder_row repr resume_data], None))"

text \<open>
  One pass of the file loop for a file whose content parsed (lines 114 to 149 and the
  handler of lines 161 to 169): a value that is not a dict is logged as 'Invalid JSON',
  an exception of the body is caught and logged with its class name. The state is
  \<open>(all_resumes, error_log)\<close>; an entry of the log is the file name and the error type.
\<close>

datatype error_type = Invalid_JSON | Exception_name py_error

type_synonym error_entry = "pystr \<times> error_type"

definition process_parsed_file ::
  "(json \<Rightarrow> pystr) \<Rightarrow> pystr \<Rightarrow> json \<Rightarrow> resume_row list \<times> error_entry list
     \<Rightarrow> resume_row list \<times> error_entry list"
where
  "process_parsed_file repr filename resume_data st =
     (case st of (all_resumes, error_log) \<Rightarrow>
        (case resume_data of
           JObj d \<Rightarrow>
             (case append_resume_rows repr d all_resumes of
                (rows, None) \<Rightarrow> (rows, error_log)
              | (rows, Some e) \<Rightarrow> (rows, error_log @ [(filename, Exception_name e)]))
         | _ \<Rightarrow> (all_resumes, error_log @ [(filename, Invalid_JSON)])))"

text \<open>
  A well-formed record: \<open>Work Experiences\<close> is absent, \<open>null\<close>, or a list of dicts.
  \<open>work_experiences\<close> is that list (empty when there is none).
\<close>

definition well_formed :: "pydict \<Rightarrow> bool" where
  "well_formed resume_data =
     (case map_of resume_data (U ''Work Experiences'') of
        None \<Rightarrow> True
      | Some JNull \<Rightarrow> True
      | Some (JArr es) \<Rightarrow> list_all is_dict es
      | Some _ \<Rightarrow> False)"

definition work_experiences :: "pydict \<Rightarrow> json list" where
  "work_experiences resume_data =
     (case map_of resume_data (U ''Work Experiences'') of
        Some (JArr es) \<Rightarrow> es
      | _ \<Rightarrow> [])"

fun dict_of :: "json \<Rightarrow> pydict" where
  "dict_of (JObj d) = d"
| "dict_of _ = []"


subsection \<open>Vocabulary of the statements about the flattener\<close>

text \<open>
  The graduation text as the specification words it: the non-empty parts of Degree and
  Institution joined by \<open>" - "\<close>. This definition follows the specification, not the
  source; \<open>graduation_str\<close> above is the source's.
\<close>

definition joined_nonempty_parts :: "pystr \<Rightarrow> pystr \<Rightarrow> pystr" where
  "joined_nonempty_parts d i =
     (if d = [] then i else if i = [] then d else d @ U '' - '' @ i)"

text \<open>The text of a field of a dict: empty when the key is absent, none when the value is not a str.\<close>

definition field_text :: "pydict \<Rightarrow> pystr \<Rightarrow> pystr option" where
  "field_text d k =
     (case map_of d k of None \<Rightarrow> Some [] | Some (JStr s) \<Rightarrow> Some s | Some _ \<Rightarrow> None)"

text \<open>A text that neither begins nor ends with a space (32) or a hyphen (45).\<close>

definition trimmed :: "pystr \<Rightarrow> bool" where
  "trimmed s = (s = [] \<or> (hd s \<notin> {32, 45} \<and> last s \<notin> {32, 45}))"

text \<open>Concrete records.\<close>

definition two_jobs :: pydict where
  "two_jobs =
     [(U ''Name'', JStr (U ''Ada'')),
      (U ''Work Experiences'',
         JArr [JObj [(U ''Company'', JStr (U ''A''))], JObj [(U ''Role'', JStr (U ''Dev''))]])]"

definition dash_degree :: pydict where
  "dash_degree =
     [(U ''Graduation'',
         JObj [(U ''Degree'', JStr (U ''-'')), (U ''Institution'', JStr (U ''MIT''))])]"

definition bsc_mit :: pydict where
  "bsc_mit =
     [(U ''Graduation'',
         JObj [(U ''Degree'', JStr (U ''BSc'')), (U ''Institution'', JStr (U ''MIT''))])]"

definition null_degree :: pydict where
  "null_degree =
     [(U ''Graduation'', JObj [(U ''Degree'', JNull), (U ''Institution'', JStr (U ''MIT''))])]"

definition bad_entry :: pydict where
  "bad_entry =
     [(U ''Name'', JStr (U ''Ada'')),
      (U ''Work Experiences'',
         JArr [JObj [(U ''Company'', JStr (U ''A''))],
               JStr (U ''oops''),
               JObj [(U ''Company'', JStr (U ''B''))]])]"

definition no_repr :: "json \<Rightarrow> pystr" where
  "no_repr v = []"


section \<open>The duration engine (\<open>process_duration_column\<close>)\<close>

subsection \<open>Text operations\<close>

text \<open>
  The character classes of Python on code points. \<open>is_space\<close> is the whole table of
  \<open>str.isspace\<close>, which \<open>strip()\<close> and the regex class \<open>\s\<close> use. Digits, word characters
  and letter case are those of ASCII: a code point above 127 counts as no digit and no
  word character, and \<open>lower\<close> leaves it as it is.
\<close>

definition is_space :: "nat \<Rightarrow> bool" where
  "is_space c =
     ((9 \<le> c \<and> c \<le> 13) \<or> (28 \<le> c \<and> c \<le> 32) \<or> c = 133 \<or> c = 160 \<or> c = 5760 \<or>
      (8192 \<le> c \<and> c \<le> 8202) \<or> c = 8232 \<or> c = 8233 \<or> c = 8239 \<or> c = 8287 \<or>
      c = 12288)"

definition is_digit :: "nat \<Rightarrow> bool" where
  "is_digit c = (48 \<le> c \<and> c \<le> 57)"

definition is_word :: "nat \<Rightarrow> bool" where
  "is_word c = (is_digit c \<or> (65 \<le> c \<and> c \<le> 90) \<or> (97 \<le> c \<and> c \<le> 122) \<or> c = 95)"

definition lower_char :: "nat \<Rightarrow> nat" where
  "lower_char c = (if 65 \<le> c \<and> c \<le> 90 then c + 32 else c)"

definition lower :: "pystr \<Rightarrow> pystr" where
  "lower s = map lower_char s"

definition strip :: "pystr \<Rightarrow> pystr" where
  "strip s = rev (dropWhile is_space (rev (dropWhile is_space s)))"

text \<open>\<open>s.split(sep)\<close> for a separator of one character: never an empty list.\<close>

fun split_on :: "nat \<Rightarrow> pystr \<Rightarrow> pystr list" where
  "split_on sep [] = [[]]"
| "split_on sep (c # cs) =
     (let parts = split_on sep cs in
      if c = sep then [] # parts else (c # hd parts) # tl parts)"

text \<open>\<open>int(s)\<close> on a text of digits, surrounding whitespace ignored.\<close>

definition py_int :: "pystr \<Rightarrow> int" where
  "py_int s = foldl (\<lambda>a c. 10 * a + (int c - 48)) 0 (strip s)"

definition en_dash :: nat where
  "en_dash = 8211"

definition hyphen :: nat where
  "hyphen = 45"


subsection \<open>Dates\<close>

record datetime =
  year :: int
  month :: int
  day :: int

definition is_leap :: "int \<Rightarrow> bool" where
  "is_leap y = (y mod 4 = 0 \<and> (y mod 100 \<noteq> 0 \<or> y mod 400 = 0))"

definition days_in_month :: "int \<Rightarrow> int \<Rightarrow> int" where
  "days_in_month y m =
     (if m = 2 then (if is_leap y then 29 else 28)
      else if m = 4 \<or> m = 6 \<or> m = 9 \<or> m = 11 then 30 else 31)"

text \<open>\<open>datetime(y, m, d)\<close>: \<open>None\<close> is the ValueError of a date out of range.\<close>

definition make_datetime :: "int \<Rightarrow> int \<Rightarrow> int \<Rightarrow> datetime option" where
  "make_datetime y m d =
     (if 1 \<le> y \<and> y \<le> 9999 \<and> 1 \<le> m \<and> m \<le> 12 \<and> 1 \<le> d \<and> d \<le> days_in_month y m
      then Some \<lparr> year = y, month = m, day = d \<rparr> else None)"


subsection \<open>\<open>datetime.strptime\<close> for the formats of \<open>date_formats\<close>\<close>

text \<open>
  \<open>strptime\<close> turns the format into a regular expression: a run of whitespace becomes
  \<open>\s+\<close>, a directive a group of alternatives, any other character itself. It takes the
  first match in the order of the alternatives, fails when text is left over, and builds
  the date. Only the five directives that \<open>date_formats\<close> uses are modelled, with the
  month names of the C locale.
\<close>

datatype directive = Lit nat | Spaces | Dir_b | Dir_B | Dir_Y | Dir_m | Dir_d

definition directive_of :: "nat \<Rightarrow> directive option" where
  "directive_of c =
     (if c = of_char CHR ''b'' then Some Dir_b
      else if c = of_char CHR ''B'' then Some Dir_B
      else if c = of_char CHR ''Y'' then Some Dir_Y
      else if c = of_char CHR ''m'' then Some Dir_m
      else if c = of_char CHR ''d'' then Some Dir_d
      else None)"

function compile_format :: "pystr \<Rightarrow> directive list option" where
  "compile_format [] = Some []"
| "compile_format (c # cs) =
     (if c = of_char CHR ''%'' then
        (case cs of
           [] \<Rightarrow> None
         | x # rest \<Rightarrow>
             (case directive_of x of
                None \<Rightarrow> None
              | Some d \<Rightarrow> map_option (Cons d) (compile_format rest)))
      else if is_space c then
        map_option (Cons Spaces) (compile_format (dropWhile is_space cs))
      else map_option (Cons (Lit c)) (compile_format cs))"
  by pat_completeness auto
termination
  by (relation "measure length") (auto simp: less_Suc_eq_le length_dropWhile_le)

type_synonym char_class = "nat \<Rightarrow> bool"

definition one_of :: "string \<Rightarrow> char_class" where
  "one_of s c = (c \<in> set (U s))"

text \<open>A literal of the pattern under IGNORECASE.\<close>

definition ignorecase :: "string \<Rightarrow> char_class list" where
  "ignorecase literal = map (\<lambda>ch c. lower_char c = lower_char ch) (U literal)"

text \<open>One alternative of a group, a sequence of character classes: the text left after it.\<close>

fun match_classes :: "char_class list \<Rightarrow> pystr \<Rightarrow> pystr option" where
  "match_classes [] s = Some s"
| "match_classes (p # ps) [] = None"
| "match_classes (p # ps) (c # cs) = (if p c then match_classes ps cs else None)"

text \<open>The groups of \<open>_strptime.TimeRE\<close>, alternatives in their order.\<close>

definition regex_d :: "char_class list list" where
  "regex_d =
     [[one_of ''3'', one_of ''01''],
      [one_of ''12'', is_digit],
      [one_of ''0'', one_of ''123456789''],
      [one_of ''123456789''],
      [one_of '' '', one_of ''123456789'']]"

definition regex_m :: "char_class list list" where
  "regex_m =
     [[one_of ''1'', one_of ''012''],
      [one_of ''0'', one_of ''123456789''],
      [one_of ''123456789'']]"

definition regex_Y :: "char_class list list" where
  "regex_Y = [[is_digit, is_digit, is_digit, is_digit]]"

definition a_month :: "string list" where
  "a_month = [''jan'', ''feb'', ''mar'', ''apr'', ''may'', ''jun'',
              ''jul'', ''aug'', ''sep'', ''oct'', ''nov'', ''dec'']"

definition f_month :: "string list" where
  "f_month = [''january'', ''february'', ''march'', ''april'', ''may'', ''june'',
              ''july'', ''august'', ''september'', ''october'', ''november'', ''december'']"

text \<open>The regex lists the names longest first (a stable sort by length).\<close>

definition longest_first :: "string list \<Rightarrow> string list" where
  "longest_first names = rev (sort_key length (rev names))"

text \<open>What \<open>strptime\<close> has found so far: the defaults are 1900, 1, 1.\<close>

record found =
  f_year :: int
  f_month_no :: int
  f_day :: int

text \<open>The position of a month name in its list, counted from 1.\<close>

fun index_of :: "string list \<Rightarrow> pystr \<Rightarrow> int" where
  "index_of [] s = 0"
| "index_of (n # ns) s = (if U n = s then 1 else 1 + index_of ns s)"

text \<open>
  The matches of one directive at the head of a text, best first: what is found and
  the text that is left.
\<close>

definition group_matches :: "char_class list list \<Rightarrow> pystr \<Rightarrow> (pystr \<times> pystr) list" where
  "group_matches alternatives s =
     concat (map (\<lambda>alt. case match_classes alt s of
                           None \<Rightarrow> []
                         | Some rest \<Rightarrow> [(take (length alt) s, rest)]) alternatives)"

fun directive_matches :: "directive \<Rightarrow> pystr \<Rightarrow> found \<Rightarrow> (found \<times> pystr) list" where
  "directive_matches (Lit c) s f =
     (case s of [] \<Rightarrow> [] | x # rest \<Rightarrow> if lower_char x = lower_char c then [(f, rest)] else [])"
| "directive_matches Spaces s f =
     map (\<lambda>k. (f, drop k s)) (rev [1 ..< Suc (length (takeWhile is_space s))])"
| "directive_matches Dir_b s f =
     map (\<lambda>(g, rest). (f\<lparr>f_month_no := index_of a_month (lower g)\<rparr>, rest))
       (group_matches (map ignorecase (longest_first a_month)) s)"
| "directive_matches Dir_B s f =
     map (\<lambda>(g, rest). (f\<lparr>f_month_no := index_of f_month (lower g)\<rparr>, rest))
       (group_matches (map ignorecase (longest_first f_month)) s)"
| "directive_matches Dir_Y s f =
     map (\<lambda>(g, rest). (f\<lparr>f_year := py_int g\<rparr>, rest)) (group_matches regex_Y s)"
| "directive_matches Dir_m s f =
     map (\<lambda>(g, rest). (f\<lparr>f_month_no := py_int g\<rparr>, rest)) (group_matches regex_m s)"
| "directive_matches Dir_d s f =
     map (\<lambda>(g, rest). (f\<lparr>f_day := py_int g\<rparr>, rest)) (group_matches regex_d s)"

fun regex_matches :: "directive list \<Rightarrow> pystr \<Rightarrow> found \<Rightarrow> (found \<times> pystr) list" where
  "regex_matches [] s f = [(f, s)]"
| "regex_matches (d # ds) s f =
     concat (map (\<lambda>(f', rest). regex_matches ds rest f') (directive_matches d s f))"

text \<open>\<open>datetime.strptime(data_string, format)\<close>: \<open>None\<close> is a ValueError.\<close>

definition strptime :: "pystr \<Rightarrow> string \<Rightarrow> datetime option" where
  "strptime data_string format =
     (case compile_format (U format) of
        None \<Rightarrow> None
      | Some ds \<Rightarrow>
          (case regex_matches ds data_string \<lparr> f_year = 1900, f_month_no = 1, f_day = 1 \<rparr> of
             [] \<Rightarrow> None
           | (f, rest) # others \<Rightarrow>
               if rest \<noteq> [] then None
               else make_datetime (f_year f) (f_month_no f) (f_day f)))"


subsection \<open>\<open>parse_date\<close>\<close>

definition date_formats :: "string list" where
  "date_formats =
     [''%b %Y'', ''%B %Y'', ''%Y-%m'', ''%m-%Y'', ''%b. %Y'', ''%B. %Y'',
      ''%d %b %Y'', ''%d %B %Y'', ''%b %d, %Y'', ''%B %d, %Y'',
      ''%Y'', ''%m/%Y'', ''%Y/%m'']"

text \<open>The loop over the formats: the first one that does not raise.\<close>

fun try_formats :: "pystr \<Rightarrow> string list \<Rightarrow> datetime option" where
  "try_formats date_str [] = None"
| "try_formats date_str (fmt # fmts) =
     (case strptime date_str fmt of
        Some dt \<Rightarrow> Some dt
      | None \<Rightarrow> try_formats date_str fmts)"

definition months :: "(string \<times> int) list" where
  "months =
     [(''jan'', 1), (''january'', 1), (''feb'', 2), (''february'', 2),
      (''mar'', 3), (''march'', 3), (''apr'', 4), (''april'', 4),
      (''may'', 5), (''jun'', 6), (''june'', 6), (''jul'', 7), (''july'', 7),
      (''aug'', 8), (''august'', 8), (''sep'', 9), (''september'', 9),
      (''oct'', 10), (''october'', 10), (''nov'', 11), (''november'', 11),
      (''dec'', 12), (''december'', 12)]"

text \<open>\<open>months.get(k, 1)\<close>\<close>

definition months_get :: "pystr \<Rightarrow> int" where
  "months_get k = (case map_of (map (\<lambda>(n, v). (U n, v)) months) k of Some v \<Rightarrow> v | None \<Rightarrow> 1)"

text \<open>
  \<open>re.search(r'(\w+)\s*(\d{4})', date_str)\<close>: the leftmost match, the word group and the
  whitespace greedy. A match gives the two groups.
\<close>

definition match_word_year :: "pystr \<Rightarrow> (pystr \<times> pystr) list" where
  "match_word_year s =
     concat (map (\<lambda>k.
        concat (map (\<lambda>j.
           (case match_classes [is_digit, is_digit, is_digit, is_digit] (drop (k + j) s) of
              None \<Rightarrow> []
            | Some rest \<Rightarrow> [(take k s, take 4 (drop (k + j) s))]))
          (rev [0 ..< Suc (length (takeWhile is_space (drop k s)))])))
       (rev [1 ..< Suc (length (takeWhile is_word s))]))"

fun re_search :: "pystr \<Rightarrow> (pystr \<times> pystr) option" where
  "re_search [] = None"
| "re_search (c # cs) =
     (case match_word_year (c # cs) of
        g # others \<Rightarrow> Some g
      | [] \<Rightarrow> re_search cs)"

text \<open>
  \<open>parse_date\<close>. A token is a text or \<open>None\<close>; \<open>now\<close> is what \<open>datetime.now()\<close> returns.
\<close>

definition parse_date :: "datetime \<Rightarrow> pystr option \<Rightarrow> datetime option" where
  "parse_date now date_str =
     (case date_str of
        None \<Rightarrow> None
      | Some s \<Rightarrow>
          if s = [] then None
          else
            (let t = lower (strip s) in
             if t \<in> set [U ''present'', U ''running'', U ''current''] then Some now
             else
               (case try_formats t date_formats of
                  Some dt \<Rightarrow> Some dt
                | None \<Rightarrow>
                    (case re_search t of
                       Some (month_str, yr) \<Rightarrow>
                         make_datetime (py_int yr) (months_get (take 3 (lower month_str))) 1
                     | None \<Rightarrow> None))))"


subsection \<open>Month count and the three columns\<close>

text \<open>
  A cell of a date column, as the row-wise \<open>apply\<close> of lines 250 to 253 reads it: \<open>None\<close>
  in a column of objects, \<open>NaT\<close> for a missing value of a datetime64 column, or a date.
\<close>

datatype date_cell = PyNone | NaT | Date datetime

text \<open>
  \<open>calculate_duration_in_months\<close>. \<open>NaT\<close> is not \<open>None\<close>, so neither test catches it; its
  \<open>year\<close> and \<open>month\<close> are \<open>NaN\<close>, and so is the count computed from them. The result
  \<open>None\<close> is that \<open>NaN\<close>.
\<close>

definition calculate_duration_in_months ::
  "datetime \<Rightarrow> date_cell \<Rightarrow> date_cell \<Rightarrow> int option"
where
  "calculate_duration_in_months now start end_date =
     (if start = PyNone then Some 0
      else
        (let e = (if end_date = PyNone then Date now else end_date) in
         case (e, start) of
           (Date e', Date s) \<Rightarrow> Some ((year e' - year s) * 12 + (month e' - month s))
         | _ \<Rightarrow> None))"

text \<open>
  The arguments that the two lambdas of lines 241 to 248 pass to \<open>parse_date\<close>, for a
  Duration that is a text \<open>x\<close>.
\<close>

definition start_token :: "pystr \<Rightarrow> pystr" where
  "start_token x =
     (if en_dash \<in> set x then strip (hd (split_on en_dash x))
      else if hyphen \<in> set x then strip (hd (split_on hyphen x))
      else x)"

definition end_token :: "pystr \<Rightarrow> pystr option" where
  "end_token x =
     (if en_dash \<in> set x then Some (strip (last (split_on en_dash x)))
      else if hyphen \<in> set x then Some (strip (last (split_on hyphen x)))
      else None)"

definition Start_Date_of :: "datetime \<Rightarrow> pystr \<Rightarrow> datetime option" where
  "Start_Date_of now x = parse_date now (Some (start_token x))"

definition End_Date_of :: "datetime \<Rightarrow> pystr \<Rightarrow> datetime option" where
  "End_Date_of now x = parse_date now (end_token x)"

text \<open>
  \<open>Start_Date_of\<close> and \<open>End_Date_of\<close> are what the two lambdas return for one row. pandas
  builds a column from these values and infers its type: when at least one value is a
  date and every date fits \<open>datetime64[ns]\<close> (22 September 1677 to 11 April 2262, dates
  taken at midnight), the column is a datetime64 column and a \<open>None\<close> in it becomes
  \<open>NaT\<close>; otherwise the column keeps the objects.
\<close>

definition fits_datetime64 :: "datetime \<Rightarrow> bool" where
  "fits_datetime64 d =
     (let n = year d * 10000 + month d * 100 + day d in 16770922 \<le> n \<and> n \<le> 22620411)"

definition store_dates :: "datetime option list \<Rightarrow> date_cell list" where
  "store_dates col =
     (if list_ex (\<lambda>v. case v of None \<Rightarrow> False | Some d \<Rightarrow> True) col \<and>
         list_all (\<lambda>v. case v of None \<Rightarrow> True | Some d \<Rightarrow> fits_datetime64 d) col
      then map (\<lambda>v. case v of None \<Rightarrow> NaT | Some d \<Rightarrow> Date d) col
      else map (\<lambda>v. case v of None \<Rightarrow> PyNone | Some d \<Rightarrow> Date d) col)"

text \<open>
  The three columns of \<open>process_duration_column\<close> for a frame whose Duration column is
  the list \<open>durations\<close> of texts. Line 254 replaces a \<open>NaN\<close> count by 0.
\<close>

definition Start_Date_column :: "datetime \<Rightarrow> pystr list \<Rightarrow> date_cell list" where
  "Start_Date_column now durations = store_dates (map (Start_Date_of now) durations)"

definition End_Date_column :: "datetime \<Rightarrow> pystr list \<Rightarrow> date_cell list" where
  "End_Date_column now durations = store_dates (map (End_Date_of now) durations)"

definition Calculated_Duration_column :: "datetime \<Rightarrow> pystr list \<Rightarrow> int list" where
  "Calculated_Duration_column now durations =
     map (\<lambda>(start, end_date).
            case calculate_duration_in_months now start end_date of
              None \<Rightarrow> 0
            | Some n \<Rightarrow> n)
       (zip (Start_Date_column now durations) (End_Date_column now durations))"

text \<open>The words of the specification for the two ends of a range.\<close>

definition before_first :: "nat \<Rightarrow> pystr \<Rightarrow> pystr" where
  "before_first sep x = takeWhile (\<lambda>c. c \<noteq> sep) x"

definition after_last :: "nat \<Rightarrow> pystr \<Rightarrow> pystr" where
  "after_last sep x = rev (takeWhile (\<lambda>c. c \<noteq> sep) (rev x))"

definition today :: datetime where
  "today = \<lparr> year = 2026, month = 11, day = 4 \<rparr>"

text \<open>Concrete Duration texts.\<close>

definition mar_2019 :: pystr where
  "mar_2019 = U ''Mar 2019''"

definition from_2020_to_2022 :: pystr where
  "from_2020_to_2022 = U ''2020-2022''"

definition jan_2019_present :: pystr where
  "jan_2019_present = U ''Jan 2019 '' @ [en_dash] @ U '' Present''"


section \<open>The resumes table (\<open>database.py\<close>)\<close>

text \<open>
  A value bound to a statement or stored in a column. The table of \<open>create_table\<close> has
  \<open>mobile\<close> as its primary key. \<open>mobile\<close> and \<open>created_at\<close> hold text: the digits that
  \<open>flatten_mobile\<close> leaves and the date that \<open>insert_resume_data\<close> formats with
  \<open>'%Y-%m-%d'\<close>. SQLite compares two texts code point by code point, which is the
  lexicographic order of lists.
\<close>

datatype sqlval = SNull | SInt int | SText pystr

record resume =
  name :: sqlval
  mobile :: pystr
  email :: sqlval
  graduation :: sqlval
  company :: sqlval
  role :: sqlval
  calculated_duration :: sqlval
  total_experience :: sqlval
  created_at :: pystr

text \<open>
  The pandas row handed to \<open>insert_resume_data\<close>: \<open>row_Name\<close> is \<open>row['Name']\<close>, and so
  on. The row that \<open>update_resume\<close> reads has \<open>row['created_at']\<close> as well.
\<close>

record series =
  row_Name :: sqlval
  row_Mobile :: pystr
  row_Email :: sqlval
  row_Graduation :: sqlval
  row_Company :: sqlval
  row_Role :: sqlval
  row_Calculated_Duration :: sqlval
  row_Total_Experience :: sqlval

record edited_series = series +
  row_created_at :: sqlval

datatype sqlite_error = ProgrammingError | IntegrityError

text \<open>The three statements, as the source writes them.\<close>

definition select_sql :: string where
  "select_sql = ''SELECT COUNT(*) FROM resumes WHERE mobile = ? AND created_at < ?''"

definition insert_sql :: string where
  "insert_sql =
     ''INSERT INTO resumes (name, mobile, email, graduation, company, role, calculated_duration, total_experience, created_at) VALUES (?, ?, ?, ?, ?, ?, ?, ?, ?)''"

definition update_sql :: string where
  "update_sql =
     ''UPDATE resumes SET name = ?, email = ?, graduation = ?, company = ?, role = ?, calculated_duration = ?, total_experience = ? WHERE mobile = ?''"

text \<open>
  \<open>cursor.execute(sql, values)\<close> raises ProgrammingError unless there are as many values
  as the statement has \<open>?\<close> placeholders. With the right number, the values are bound to
  the placeholders in order and the statement runs.
\<close>

definition placeholders :: "string \<Rightarrow> nat" where
  "placeholders sql = count_list sql CHR ''?''"

fun run_select :: "sqlval list \<Rightarrow> resume list \<Rightarrow> nat" where
  "run_select [SText m, SText d] db =
     length (filter (\<lambda>r. mobile r = m \<and> created_at r < d) db)"
| "run_select values db = 0"

fun run_insert :: "sqlval list \<Rightarrow> resume list \<Rightarrow> sqlite_error + resume list" where
  "run_insert [n, SText m, e, g, c, ro, cd, te, SText ca] db =
     (if \<exists>r \<in> set db. mobile r = m then Inl IntegrityError
      else Inr (db @ [\<lparr> name = n, mobile = m, email = e, graduation = g, company = c,
                        role = ro, calculated_duration = cd, total_experience = te,
                        created_at = ca \<rparr>]))"
| "run_insert values db = Inl ProgrammingError"

fun run_update :: "sqlval list \<Rightarrow> resume list \<Rightarrow> sqlite_error + resume list" where
  "run_update [n, e, g, c, ro, cd, te, SText m] db =
     Inr (map (\<lambda>r. if mobile r = m
                    then r\<lparr> name := n, email := e, graduation := g, company := c, role := ro,
                           calculated_duration := cd, total_experience := te \<rparr>
                    else r) db)"
| "run_update values db = Inl ProgrammingError"

definition execute ::
  "string \<Rightarrow> sqlval list \<Rightarrow> (sqlval list \<Rightarrow> sqlite_error + 'a) \<Rightarrow> sqlite_error + 'a"
where
  "execute sql values run =
     (if length values = placeholders sql then run values else Inl ProgrammingError)"

text \<open>
  \<open>insert_resume_data\<close>. \<open>current_date\<close> is \<open>datetime.now().strftime('%Y-%m-%d')\<close>. The
  outcome tells the three ways out apart: \<open>Inserted\<close> returns True; \<open>Skipping\<close> prints
  "Skipping insertion" and returns False; \<open>Error_processing\<close> is the handler of
  \<open>sqlite3.Error\<close>, which prints the error and returns False.
\<close>

datatype outcome = Inserted | Skipping | Error_processing sqlite_error

definition insert_resume_data :: "pystr \<Rightarrow> series \<Rightarrow> resume list \<Rightarrow> outcome \<times> resume list" where
  "insert_resume_data current_date row db =
     (case execute select_sql [SText (row_Mobile row), SText current_date]
             (\<lambda>values. Inr (run_select values db)) of
        Inl e \<Rightarrow> (Error_processing e, db)
      | Inr existing_count \<Rightarrow>
          if existing_count = 0 then
            (case execute insert_sql
                    [row_Name row, SText (row_Mobile row), row_Email row, row_Graduation row,
                     row_Company row, row_Role row, row_Calculated_Duration row,
                     row_Total_Experience row, SText current_date]
                    (\<lambda>values. run_insert values db) of
               Inl e \<Rightarrow> (Error_processing e, db)
             | Inr db' \<Rightarrow> (Inserted, db'))
          else (Skipping, db))"

text \<open>
  \<open>update_resume\<close>: the tuple of values, and the statement. The result is the error that
  the handler caught, if any, and the table afterwards.
\<close>

definition update_values :: "edited_series \<Rightarrow> sqlval list" where
  "update_values row =
     [row_Name row, row_Email row, row_Graduation row, row_Company row, row_Role row,
      row_Calculated_Duration row, row_Total_Experience row, SText (row_Mobile row),
      row_created_at row]"

definition update_resume :: "edited_series \<Rightarrow> resume list \<Rightarrow> sqlite_error option \<times> resume list" where
  "update_resume row db =
     (case execute update_sql (update_values row) (\<lambda>values. run_update values db) of
        Inl e \<Rightarrow> (Some e, db)
      | Inr db' \<Rightarrow> (None, db'))"

text \<open>Concrete rows and tables.\<close>

definition ada_row :: series where
  "ada_row =
     \<lparr> row_Name = SText (U ''Ada''), row_Mobile = U ''9876543210'', row_Email = SNull,
       row_Graduation = SText (U ''BSc - MIT''), row_Company = SText (U ''A''),
       row_Role = SText (U ''Dev''), row_Calculated_Duration = SInt 24,
       row_Total_Experience = SInt 24 \<rparr>"

definition ada_stored :: "pystr \<Rightarrow> resume" where
  "ada_stored d =
     \<lparr> name = SText (U ''Ada L.''), mobile = U ''9876543210'', email = SNull,
       graduation = SNull, company = SNull, role = SNull, calculated_duration = SInt 3,
       total_experience = SInt 3, created_at = d \<rparr>"

definition ada_edited :: edited_series where
  "ada_edited =
     \<lparr> row_Name = SText (U ''Ada''), row_Mobile = U ''9876543210'', row_Email = SNull,
       row_Graduation = SText (U ''BSc - MIT''), row_Company = SText (U ''A''),
       row_Role = SText (U ''Dev''), row_Calculated_Duration = SInt 24,
       row_Total_Experience = SInt 24, row_created_at = SText (U ''2026-11-03'') \<rparr>"


section \<open>Aggregation per mobile (\<open>upload_resumes\<close>, lines 58 to 81)\<close>

text \<open>
  A row of the frame after \<open>process_duration_column\<close>, and after the merge that adds
  \<open>Total_Experience\<close>.
\<close>

record duration_row = resume_row +
  Calculated_Duration :: int

record total_row = duration_row +
  Total_Experience :: int

text \<open>
  \<open>flatten_mobile\<close>: of a list, the digits of the text of its first element, or \<open>None\<close>
  when it is empty; of a str, its digits; any other value as it is. \<open>str.isdigit\<close> is
  \<open>is_digit\<close> here, the digits of ASCII.
\<close>

fun flatten_mobile :: "(json \<Rightarrow> pystr) \<Rightarrow> json \<Rightarrow> json" where
  "flatten_mobile repr (JArr []) = JNull"
| "flatten_mobile repr (JArr (x # xs)) = JStr (filter is_digit (py_str repr x))"
| "flatten_mobile repr (JStr s) = JStr (filter is_digit s)"
| "flatten_mobile repr v = v"

text \<open>\<open>df.dropna(subset=['Mobile'])\<close>: a row is dropped when its Mobile is \<open>None\<close>.\<close>

definition dropna_Mobile :: "duration_row list \<Rightarrow> duration_row list" where
  "dropna_Mobile df = filter (\<lambda>r. Mobile r \<noteq> JNull) df"

text \<open>
  \<open>df.groupby(['Mobile'])['Calculated_Duration'].sum()\<close>: one entry for each distinct
  Mobile, with the sum over its rows. (pandas sorts the entries by key; the merge below
  does not depend on their order.) The keys are hashed: a Mobile that is a dict or a
  list makes \<open>groupby\<close> raise TypeError, which \<open>upload_resumes\<close> does not catch.
\<close>

fun hashable :: "json \<Rightarrow> bool" where
  "hashable (JArr xs) = False"
| "hashable (JObj kvs) = False"
| "hashable v = True"

definition overall_exp :: "duration_row list \<Rightarrow> py_error + (json \<times> int) list" where
  "overall_exp df =
     (if list_all (\<lambda>r. hashable (Mobile r)) df then
        Inr (map (\<lambda>k. (k, sum_list (map Calculated_Duration (filter (\<lambda>r. Mobile r = k) df))))
               (remdups (map Mobile df)))
      else Inl TypeError)"

text \<open>\<open>df.merge(overall_exp, on='Mobile')\<close>: an inner join, in the order of \<open>df\<close>.\<close>

definition merge_on_Mobile :: "duration_row list \<Rightarrow> (json \<times> int) list \<Rightarrow> total_row list" where
  "merge_on_Mobile df totals =
     concat (map (\<lambda>r. map (\<lambda>t. \<lparr> Name = Name r, Mobile = Mobile r, Email = Email r,
                                   Graduation = Graduation r, Company = Company r,
                                   Role = Role r, Duration = Duration r,
                                   Calculated_Duration = Calculated_Duration r,
                                   Total_Experience = snd t \<rparr>)
                        (filter (\<lambda>t. fst t = Mobile r) totals)) df)"

text \<open>Lines 70 to 81 together.\<close>

definition cleaned :: "(json \<Rightarrow> pystr) \<Rightarrow> duration_row list \<Rightarrow> duration_row list" where
  "cleaned repr df =
     dropna_Mobile (map (\<lambda>r. r\<lparr> Mobile := flatten_mobile repr (Mobile r) \<rparr>) df)"

definition aggregate :: "(json \<Rightarrow> pystr) \<Rightarrow> duration_row list \<Rightarrow> py_error + total_row list" where
  "aggregate repr df =
     (case overall_exp (cleaned repr df) of
        Inl e \<Rightarrow> Inl e
      | Inr totals \<Rightarrow> Inr (merge_on_Mobile (cleaned repr df) totals))"

text \<open>Concrete rows: a name, a mobile and a duration in months.\<close>

definition stint :: "string \<Rightarrow> json \<Rightarrow> int \<Rightarrow> duration_row" where
  "stint n m duration =
     \<lparr> Name = JStr (U n), Mobile = m, Email = JStr [], Graduation = [], Company = JStr [],
       Role = JStr [], Duration = JStr [], Calculated_Duration = duration \<rparr>"

definition stint_total :: "string \<Rightarrow> json \<Rightarrow> int \<Rightarrow> int \<Rightarrow> total_row" where
  "stint_total n m duration experience =
     \<lparr> Name = JStr (U n), Mobile = m, Email = JStr [], Graduation = [], Company = JStr [],
       Role = JStr [], Duration = JStr [], Calculated_Duration = duration,
       Total_Experience = experience \<rparr>"

section \<open>Properties of the flattener\<close>

lemma append_experiences_takeWhile:
  "append_experiences repr rd es acc =
     (acc @ map (\<lambda>e. experience_row repr rd (dict_of e)) (takeWhile is_dict es),
      if list_all is_dict es then None else Some AttributeError)"
proof (induction es arbitrary: acc)
  case Nil
  show ?case by simp
next
  case (Cons e es)
  show ?case by (cases e) (simp_all add: Cons.IH)
qed

lemma takeWhile_all: "list_all P xs \<Longrightarrow> takeWhile P xs = xs"
  by (induction xs) simp_all

lemma append_resume_rows_well_formed:
  assumes "well_formed rd"
  shows "append_resume_rows repr rd acc =
     (if work_experiences rd = [] then acc @ [placeholder_row repr rd]
      else acc @ map (\<lambda>e. experience_row repr rd (dict_of e)) (work_experiences rd), None)"
  using assms
  by (auto simp: well_formed_def work_experiences_def append_resume_rows_def dict_get_def
      append_experiences_takeWhile takeWhile_all split: option.splits json.splits)

text \<open>
  C1. A well-formed record with \<open>N \<ge> 1\<close> work experiences adds exactly \<open>N\<close> rows to
  \<open>all_resumes\<close>, each carrying the record's Name, Mobile, Email and graduation text; a
  record whose work experiences are absent or empty adds exactly one row, with empty
  Company, Role and Duration. No exception is raised in either case.
\<close>

theorem flatten_row_count:
  assumes "well_formed resume_data"
  shows "\<exists>rows. append_resume_rows repr resume_data all_resumes = (all_resumes @ rows, None) \<and>
     (work_experiences resume_data \<noteq> [] \<longrightarrow>
        length rows = length (work_experiences resume_data) \<and>
        (\<forall>r \<in> set rows.
           Name r = dict_get resume_data (U ''Name'') (JStr []) \<and>
           Mobile r = dict_get resume_data (U ''Mobile'') (JStr []) \<and>
           Email r = dict_get resume_data (U ''Email'') (JStr []) \<and>
           Graduation r = graduation_str repr resume_data)) \<and>
     (work_experiences resume_data = [] \<longrightarrow>
        rows = [\<lparr> Name = dict_get resume_data (U ''Name'') (JStr []),
                  Mobile = dict_get resume_data (U ''Mobile'') (JStr []),
                  Email = dict_get resume_data (U ''Email'') (JStr []),
                  Graduation = graduation_str repr resume_data,
                  Company = JStr [], Role = JStr [], Duration = JStr [] \<rparr>])"
proof (cases "work_experiences resume_data = []")
  case True
  then show ?thesis
    using append_resume_rows_well_formed [OF assms, of repr all_resumes]
    by (simp add: placeholder_row_def)
next
  case False
  then show ?thesis
    using append_resume_rows_well_formed [OF assms, of repr all_resumes]
    by (auto simp: experience_row_def)
qed

theorem flatten_row_count_witness:
  "well_formed two_jobs \<and> work_experiences two_jobs \<noteq> [] \<and>
   (\<exists>rows. append_resume_rows no_repr two_jobs [] = (rows, None) \<and> length rows = 2 \<and>
      (\<forall>r \<in> set rows. Name r = JStr (U ''Ada'') \<and> Mobile r = JStr []))"
proof -
  have wf: "well_formed two_jobs"
    by (simp add: two_jobs_def well_formed_def)
  have n: "length (work_experiences two_jobs) = 2"
    by (simp add: two_jobs_def work_experiences_def)
  have nm: "dict_get two_jobs (U ''Name'') (JStr []) = JStr (U ''Ada'')"
    "dict_get two_jobs (U ''Mobile'') (JStr []) = JStr []"
    by (simp_all add: two_jobs_def dict_get_def)
  from n have ne: "work_experiences two_jobs \<noteq> []" by auto
  show ?thesis
    using flatten_row_count [OF wf, of no_repr "[]"] wf ne n nm by auto
qed

subsection \<open>Records that are not well-formed\<close>

text \<open>
  C2, as stated, fails. In \<open>bad_entry\<close> the second work experience is a str, not a dict:
  \<open>experience.get\<close> raises AttributeError there. The handler catches and logs it, but no row
  with empty fields is produced for that entry, and the third entry, a proper dict, is
  never reached.
\<close>

theorem wrong_typed_entry_counterexample:
  "process_parsed_file no_repr (U ''cv.json'') (JObj bad_entry) ([], []) =
     ([\<lparr> Name = JStr (U ''Ada''), Mobile = JStr [], Email = JStr [], Graduation = [],
          Company = JStr (U ''A''), Role = JStr [], Duration = JStr [] \<rparr>],
      [(U ''cv.json'', Exception_name AttributeError)])"
  by (simp add: process_parsed_file_def append_resume_rows_def bad_entry_def dict_get_def
      experience_row_def graduation_str_def strip_chars_def)

text \<open>
  C2, amended. Processing a parsed record always returns, with the rows and the log:
  falsy work experiences give the placeholder row; a truthy value that cannot be iterated
  is logged as a TypeError and gives no row; otherwise a row is added for each entry up
  to the first one that is not a dict, and that entry, if there is one, is logged as an
  AttributeError. In a row, a Company, Role or Duration that is absent from the entry is
  the empty string.
\<close>

theorem process_parsed_file_total:
  "process_parsed_file repr filename (JObj resume_data) (all_resumes, error_log) =
     (let w = dict_get resume_data (U ''Work Experiences'') JNull in
      if \<not> truthy w then (all_resumes @ [placeholder_row repr resume_data], error_log)
      else
        (case py_iter w of
           Inl e \<Rightarrow> (all_resumes, error_log @ [(filename, Exception_name e)])
         | Inr es \<Rightarrow>
             (all_resumes @
                map (\<lambda>e. experience_row repr resume_data (dict_of e)) (takeWhile is_dict es),
              if list_all is_dict es then error_log
              else error_log @ [(filename, Exception_name AttributeError)])))
   \<and> (map_of experience (U ''Company'') = None \<longrightarrow>
        Company (experience_row repr resume_data experience) = JStr [])
   \<and> (map_of experience (U ''Role'') = None \<longrightarrow>
        Role (experience_row repr resume_data experience) = JStr [])
   \<and> (map_of experience (U ''Duration'') = None \<longrightarrow>
        Duration (experience_row repr resume_data experience) = JStr [])"
  by (simp add: process_parsed_file_def append_resume_rows_def Let_def
      append_experiences_takeWhile experience_row_def dict_get_def split: sum.splits)

theorem process_parsed_file_total_witness:
  "map_of [(U ''Company'', JStr (U ''A''))] (U ''Role'') = None \<and>
   Role (experience_row no_repr bad_entry [(U ''Company'', JStr (U ''A''))]) = JStr [] \<and>
   Company (experience_row no_repr bad_entry [(U ''Role'', JStr (U ''Dev''))]) = JStr [] \<and>
   Duration (experience_row no_repr bad_entry [(U ''Company'', JStr (U ''A''))]) = JStr [] \<and>
   snd (process_parsed_file no_repr (U ''cv.json'') (JObj bad_entry) ([], [])) =
     [(U ''cv.json'', Exception_name AttributeError)]"
proof -
  have 1: "map_of [(U ''Company'', JStr (U ''A''))] (U ''Role'') = None"
    and 2: "map_of [(U ''Role'', JStr (U ''Dev''))] (U ''Company'') = None"
    and 3: "map_of [(U ''Company'', JStr (U ''A''))] (U ''Duration'') = None"
    by simp_all
  show ?thesis
    using process_parsed_file_total
        [of no_repr "U ''cv.json''" bad_entry "[]" "[]" "[(U ''Company'', JStr (U ''A''))]"]
      process_parsed_file_total
        [of no_repr "U ''cv.json''" bad_entry "[]" "[]" "[(U ''Role'', JStr (U ''Dev''))]"]
      1 2 3
    by (simp add: Let_def bad_entry_def dict_get_def)
qed

subsection \<open>The graduation text\<close>

lemma strip_joined:
  assumes "trimmed d" "trimmed i"
  shows "strip_chars (U '' -'') (d @ U '' - '' @ i) = joined_nonempty_parts d i"
proof -
  have front: "dropWhile (\<lambda>c. c \<in> set (U '' -'')) (s @ X) = s @ X"
    if "trimmed s" "s \<noteq> []" for s X
  proof -
    from that obtain a s' where "s = a # s'" "a \<noteq> 32" "a \<noteq> 45"
      by (cases s) (auto simp: trimmed_def)
    then show ?thesis by simp
  qed
  have rear: "dropWhile (\<lambda>c. c \<in> set (U '' -'')) (rev s @ X) = rev s @ X"
    if "trimmed s" "s \<noteq> []" for s X
  proof -
    from that have "rev s \<noteq> []" by simp
    then obtain b r where r: "rev s = b # r" by (cases "rev s") auto
    with that have "b = last s" by (metis hd_rev list.sel(1))
    with that have "b \<noteq> 32" "b \<noteq> 45" by (auto simp: trimmed_def)
    with r show ?thesis by simp
  qed
  show ?thesis
  proof (cases "d = []")
    case dn: True
    show ?thesis
    proof (cases "i = []")
      case True
      with dn show ?thesis by (simp add: strip_chars_def joined_nonempty_parts_def)
    next
      case False
      have "strip_chars (U '' -'') (U '' - '' @ i) =
          rev (dropWhile (\<lambda>c. c \<in> set (U '' -'')) (rev i @ []))"
        using front [OF assms(2) False, of "[]"] by (simp add: strip_chars_def)
      also have "\<dots> = i"
        using rear [OF assms(2) False, of "[]"] by simp
      finally show ?thesis using dn False by (simp add: joined_nonempty_parts_def)
    qed
  next
    case dne: False
    show ?thesis
    proof (cases "i = []")
      case True
      have "strip_chars (U '' -'') (d @ U '' - '' @ []) =
          rev (dropWhile (\<lambda>c. c \<in> set (U '' -'')) (rev (d @ U '' - '')))"
        unfolding strip_chars_def using front [OF assms(1) dne, of "U '' - ''"] by simp
      also have "\<dots> = d"
        using rear [OF assms(1) dne, of "[]"] by simp
      finally show ?thesis using dne True by (simp add: joined_nonempty_parts_def)
    next
      case False
      have "strip_chars (U '' -'') (d @ U '' - '' @ i) =
          rev (dropWhile (\<lambda>c. c \<in> set (U '' -'')) (rev (d @ U '' - '' @ i)))"
        unfolding strip_chars_def using front [OF assms(1) dne, of "U '' - '' @ i"] by simp
      also have "\<dots> = d @ U '' - '' @ i"
        using rear [OF assms(2) False, of "rev (d @ U '' - '')"] by simp
      finally show ?thesis using dne False by (simp add: joined_nonempty_parts_def)
    qed
  qed
qed

lemma graduation_str_not_dict:
  assumes "map_of rd (U ''Graduation'') = None \<or>
           (\<exists>g. map_of rd (U ''Graduation'') = Some g \<and> \<not> is_dict g)"
  shows "graduation_str repr rd = []"
  using assms
  by (auto simp: graduation_str_def dict_get_def strip_chars_def Let_def
      split: option.splits json.splits)

lemma graduation_str_dict:
  assumes "map_of rd (U ''Graduation'') = Some (JObj g)"
    and "field_text g (U ''Degree'') = Some d"
    and "field_text g (U ''Institution'') = Some i"
  shows "graduation_str repr rd = strip_chars (U '' -'') (d @ U '' - '' @ i)"
proof (cases "g = []")
  case True
  with assms show ?thesis
    by (simp add: graduation_str_def dict_get_def field_text_def)
next
  case False
  with assms show ?thesis
    by (auto simp: graduation_str_def dict_get_def field_text_def Let_def
        split: option.splits json.splits)
qed

text \<open>
  C5, as stated, fails: \<open>strip(' -')\<close> removes every leading and trailing space and hyphen
  of the formatted text, also those that belong to a part. With Degree \<open>"-"\<close> and
  Institution \<open>"MIT"\<close> the non-empty parts joined by \<open>" - "\<close> are \<open>"- - MIT"\<close>; the code
  gives \<open>"MIT"\<close>.
\<close>

theorem graduation_str_counterexample:
  "graduation_str no_repr dash_degree = U ''MIT'' \<and>
   joined_nonempty_parts (U ''-'') (U ''MIT'') = U ''- - MIT'' \<and>
   graduation_str no_repr dash_degree \<noteq> joined_nonempty_parts (U ''-'') (U ''MIT'')"
  by (simp add: graduation_str_def dash_degree_def dict_get_def strip_chars_def
      joined_nonempty_parts_def)

text \<open>
  C5, amended. When Graduation is absent or not a dict the graduation text is empty.
  When it is a dict whose Degree and Institution are texts (or absent, which counts as
  empty) that neither begin nor end with a space or a hyphen, the graduation text is the
  non-empty parts joined by \<open>" - "\<close>: no separator is left at either end, and the text is
  empty when both parts are.
\<close>

theorem graduation_str_joined:
  "(map_of resume_data (U ''Graduation'') = None \<or>
    (\<exists>g. map_of resume_data (U ''Graduation'') = Some g \<and> \<not> is_dict g)
      \<longrightarrow> graduation_str repr resume_data = [])
   \<and> (map_of resume_data (U ''Graduation'') = Some (JObj g) \<and>
      field_text g (U ''Degree'') = Some d \<and> field_text g (U ''Institution'') = Some i \<and>
      trimmed d \<and> trimmed i
      \<longrightarrow> graduation_str repr resume_data = joined_nonempty_parts d i)"
  using graduation_str_not_dict [of resume_data repr]
    graduation_str_dict [of resume_data g d i repr] strip_joined [of d i]
  by auto

theorem graduation_str_joined_witness:
  "map_of bsc_mit (U ''Graduation'') =
     Some (JObj [(U ''Degree'', JStr (U ''BSc'')), (U ''Institution'', JStr (U ''MIT''))]) \<and>
   trimmed (U ''BSc'') \<and> trimmed (U ''MIT'') \<and>
   graduation_str no_repr bsc_mit = U ''BSc - MIT'' \<and>
   map_of two_jobs (U ''Graduation'') = None \<and>
   graduation_str no_repr two_jobs = []"
proof -
  have g: "map_of bsc_mit (U ''Graduation'') =
     Some (JObj [(U ''Degree'', JStr (U ''BSc'')), (U ''Institution'', JStr (U ''MIT''))])"
    by (simp add: bsc_mit_def)
  have f: "field_text [(U ''Degree'', JStr (U ''BSc'')), (U ''Institution'', JStr (U ''MIT''))]
             (U ''Degree'') = Some (U ''BSc'')"
    "field_text [(U ''Degree'', JStr (U ''BSc'')), (U ''Institution'', JStr (U ''MIT''))]
             (U ''Institution'') = Some (U ''MIT'')"
    by (simp_all add: field_text_def)
  have t: "trimmed (U ''BSc'')" "trimmed (U ''MIT'')"
    by (simp_all add: trimmed_def)
  have n: "map_of two_jobs (U ''Graduation'') = None"
    by (simp add: two_jobs_def)
  have j: "joined_nonempty_parts (U ''BSc'') (U ''MIT'') = U ''BSc - MIT''"
    by (simp add: joined_nonempty_parts_def)
  show ?thesis
    using graduation_str_joined
        [where resume_data = bsc_mit and repr = no_repr and d = "U ''BSc''" and i = "U ''MIT''"
           and g = "[(U ''Degree'', JStr (U ''BSc'')), (U ''Institution'', JStr (U ''MIT''))]"]
      graduation_str_joined
        [where resume_data = two_jobs and repr = no_repr and g = "[]" and d = "[]" and i = "[]"]
      g f t n j
    by simp
qed

text \<open>A Degree that is JSON \<open>null\<close> is formatted as the text \<open>None\<close>.\<close>

lemma graduation_str_null_degree:
  "graduation_str repr null_degree = U ''None - MIT''"
  by (simp add: graduation_str_def null_degree_def dict_get_def strip_chars_def)


section \<open>Properties of the duration engine\<close>

subsection \<open>Splitting a range\<close>

text \<open>
  \<open>before_first\<close> and \<open>after_last\<close> are what their names say: the text splits at a
  separator into \<open>before_first\<close> and a rest, and into a front and \<open>after_last\<close>, and
  neither of the two contains the separator.
\<close>

lemma before_first_decompose:
  assumes "sep \<in> set x"
  shows "\<exists>rest. x = before_first sep x @ sep # rest" and "sep \<notin> set (before_first sep x)"
proof -
  let ?P = "\<lambda>c. c \<noteq> sep"
  from assms have "dropWhile ?P x \<noteq> []" by (auto simp: dropWhile_eq_Nil_conv)
  then obtain a rest where d: "dropWhile ?P x = a # rest" by (cases "dropWhile ?P x") auto
  then have "\<not> ?P a" using hd_dropWhile [of ?P x] by auto
  then have "a = sep" by simp
  moreover have "x = takeWhile ?P x @ dropWhile ?P x" by simp
  ultimately have "x = before_first sep x @ sep # rest"
    using d by (simp add: before_first_def)
  then show "\<exists>rest. x = before_first sep x @ sep # rest" ..
  show "sep \<notin> set (before_first sep x)"
    unfolding before_first_def by (auto dest: set_takeWhileD)
qed

lemma after_last_decompose:
  assumes "sep \<in> set x"
  shows "\<exists>front. x = front @ sep # after_last sep x" and "sep \<notin> set (after_last sep x)"
proof -
  from assms have "sep \<in> set (rev x)" by simp
  from before_first_decompose(1) [OF this]
  obtain rest where "rev x = before_first sep (rev x) @ sep # rest" ..
  then have "rev (rev x) = rev (before_first sep (rev x) @ sep # rest)" by simp
  then have "x = rev rest @ sep # after_last sep x"
    by (simp add: after_last_def before_first_def)
  then show "\<exists>front. x = front @ sep # after_last sep x" ..
  show "sep \<notin> set (after_last sep x)"
    unfolding after_last_def by (auto dest: set_takeWhileD)
qed

lemma split_on_Cons:
  "split_on sep (c # cs) =
     (if c = sep then [] # split_on sep cs
      else (c # hd (split_on sep cs)) # tl (split_on sep cs))"
  by (simp add: Let_def)

declare split_on.simps(2) [simp del]

lemma split_on_not_Nil: "split_on sep x \<noteq> []"
  by (induction x) (simp_all add: split_on_Cons)

lemma hd_split_on: "hd (split_on sep x) = before_first sep x"
  by (induction x) (simp_all add: before_first_def split_on_Cons)

lemma split_on_no_sep: "sep \<notin> set x \<Longrightarrow> split_on sep x = [x]"
  by (induction x) (simp_all add: split_on_Cons)

lemma split_on_sep_tl: "sep \<in> set x \<Longrightarrow> tl (split_on sep x) \<noteq> []"
  by (induction x) (auto simp: split_on_not_Nil split_on_Cons)

lemma after_last_Cons_in:
  assumes "sep \<in> set cs"
  shows "after_last sep (c # cs) = after_last sep cs"
proof -
  from assms have "sep \<in> set (rev cs)" by simp
  then have "takeWhile (\<lambda>c. c \<noteq> sep) (rev cs @ [c]) = takeWhile (\<lambda>c. c \<noteq> sep) (rev cs)"
    by (rule takeWhile_append1) simp
  then show ?thesis unfolding after_last_def by simp
qed

lemma after_last_Cons_notin:
  assumes "sep \<notin> set cs"
  shows "after_last sep (c # cs) = (if c = sep then cs else c # cs)"
proof -
  from assms have "takeWhile (\<lambda>c. c \<noteq> sep) (rev cs @ [c]) = rev cs @ takeWhile (\<lambda>c. c \<noteq> sep) [c]"
    by (intro takeWhile_append2) auto
  then show ?thesis unfolding after_last_def by simp
qed

lemma last_split_on: "last (split_on sep x) = after_last sep x"
proof (induction x)
  case Nil
  show ?case by (simp add: after_last_def)
next
  case (Cons c cs)
  show ?case
  proof (cases "sep \<in> set cs")
    case True
    have ne: "tl (split_on sep cs) \<noteq> []"
      by (rule split_on_sep_tl [OF True])
    then have l: "last (tl (split_on sep cs)) = last (split_on sep cs)"
      by (rule last_tl [OF disjI2])
    show ?thesis
    proof (cases "c = sep")
      case True
      then show ?thesis
        using Cons \<open>sep \<in> set cs\<close>
        by (simp add: after_last_Cons_in split_on_not_Nil split_on_Cons)
    next
      case False
      then show ?thesis
        using Cons \<open>sep \<in> set cs\<close> ne l
        by (simp add: after_last_Cons_in split_on_Cons)
    qed
  next
    case False
    then show ?thesis by (simp add: after_last_Cons_notin split_on_no_sep split_on_Cons)
  qed
qed

lemma set_strip: "set (strip s) \<subseteq> set s"
proof -
  have "set (strip s) \<subseteq> set (dropWhile is_space s)"
    unfolding strip_def using set_dropWhileD by fastforce
  also have "\<dots> \<subseteq> set s"
    using set_dropWhileD by fastforce
  finally show ?thesis .
qed

lemma sep_notin_before_first: "sep \<notin> set (strip (before_first sep x))"
proof -
  have "sep \<notin> set (before_first sep x)"
    unfolding before_first_def by (auto dest: set_takeWhileD)
  with set_strip show ?thesis by blast
qed

lemma sep_notin_after_last: "sep \<notin> set (strip (after_last sep x))"
proof -
  have "sep \<notin> set (after_last sep x)"
    unfolding after_last_def by (auto dest: set_takeWhileD)
  with set_strip show ?thesis by blast
qed

lemma start_token_eq:
  "start_token x =
     (if en_dash \<in> set x then strip (before_first en_dash x)
      else if hyphen \<in> set x then strip (before_first hyphen x)
      else x)"
  by (simp add: start_token_def hd_split_on)

lemma end_token_eq:
  "end_token x =
     (if en_dash \<in> set x then Some (strip (after_last en_dash x))
      else if hyphen \<in> set x then Some (strip (after_last hyphen x))
      else None)"
  by (simp add: end_token_def last_split_on)

text \<open>
  C6. A duration text with an en dash has as start token the text before the first en
  dash and as end token the text after the last en dash, each trimmed; otherwise, with a
  hyphen, the same holds for hyphens; otherwise the whole text is the start token and
  there is no end token.
\<close>

theorem range_tokens:
  "(en_dash \<in> set x \<longrightarrow>
      start_token x = strip (before_first en_dash x) \<and>
      end_token x = Some (strip (after_last en_dash x)))
   \<and> (en_dash \<notin> set x \<and> hyphen \<in> set x \<longrightarrow>
      start_token x = strip (before_first hyphen x) \<and>
      end_token x = Some (strip (after_last hyphen x)))
   \<and> (en_dash \<notin> set x \<and> hyphen \<notin> set x \<longrightarrow>
      start_token x = x \<and> end_token x = None)"
  by (simp add: start_token_eq end_token_eq)

theorem range_tokens_witness:
  "en_dash \<in> set (U ''Jan 2019 '' @ [en_dash] @ U '' Mar 2020 '' @ [en_dash] @ U '' Present'') \<and>
   start_token (U ''Jan 2019 '' @ [en_dash] @ U '' Mar 2020 '' @ [en_dash] @ U '' Present'')
     = U ''Jan 2019'' \<and>
   end_token (U ''Jan 2019 '' @ [en_dash] @ U '' Mar 2020 '' @ [en_dash] @ U '' Present'')
     = Some (U ''Present'') \<and>
   en_dash \<notin> set (U ''2020-2021-2022'') \<and> hyphen \<in> set (U ''2020-2021-2022'') \<and>
   start_token (U ''2020-2021-2022'') = U ''2020'' \<and>
   end_token (U ''2020-2021-2022'') = Some (U ''2022'') \<and>
   en_dash \<notin> set (U ''Mar 2019'') \<and> hyphen \<notin> set (U ''Mar 2019'') \<and>
   start_token (U ''Mar 2019'') = U ''Mar 2019'' \<and> end_token (U ''Mar 2019'') = None"
  using range_tokens [of "U ''Jan 2019 '' @ [en_dash] @ U '' Mar 2020 '' @ [en_dash] @ U '' Present''"]
    range_tokens [of "U ''2020-2021-2022''"] range_tokens [of "U ''Mar 2019''"]
  by (simp add: en_dash_def hyphen_def before_first_def after_last_def strip_def is_space_def)

subsection \<open>The month count\<close>

text \<open>
  On \<open>None\<close> and dates the function does what it is written to do: 0 for a start that
  is \<open>None\<close>, the current date for an end that is \<open>None\<close>, and the unclamped difference
  otherwise. On \<open>NaT\<close> it returns \<open>NaN\<close>.
\<close>

lemma month_count_on_dates:
  "calculate_duration_in_months now PyNone end_date = Some 0"
  "calculate_duration_in_months now (Date s) PyNone =
     Some ((year now - year s) * 12 + (month now - month s))"
  "calculate_duration_in_months now (Date s) (Date e) =
     Some ((year e - year s) * 12 + (month e - month s))"
  "calculate_duration_in_months now (Date s) NaT = None"
  "calculate_duration_in_months now NaT end_date = None"
  by (simp_all add: calculate_duration_in_months_def Let_def split: date_cell.splits)

lemma month_count_negative:
  "calculate_duration_in_months today (Date \<lparr>year = 2022, month = 5, day = 1\<rparr>)
     (Date \<lparr>year = 2020, month = 3, day = 1\<rparr>) = Some (- 26)"
  by (simp add: month_count_on_dates)

subsection \<open>Date tokens\<close>

text \<open>
  C7. \<open>parse_date\<close> gives the current date for a token that, trimmed and lowercased, is
  \<open>present\<close>, \<open>running\<close> or \<open>current\<close>, and is unresolved for an empty or missing token.
\<close>

theorem parse_date_literals:
  "parse_date now None = None
   \<and> parse_date now (Some []) = None
   \<and> (lower (strip s) = U ''present'' \<or> lower (strip s) = U ''running'' \<or>
      lower (strip s) = U ''current''
      \<longrightarrow> parse_date now (Some s) = Some now \<and>
          map_option year (parse_date now (Some s)) = Some (year now) \<and>
          map_option month (parse_date now (Some s)) = Some (month now))"
proof -
  have a: "parse_date now None = None"
    by (simp add: parse_date_def)
  have b: "parse_date now (Some []) = None"
    by (simp add: parse_date_def)
  have c: "parse_date now (Some s) = Some now"
    if "lower (strip s) = U ''present'' \<or> lower (strip s) = U ''running'' \<or>
        lower (strip s) = U ''current''"
  proof -
    have "s \<noteq> []"
    proof
      assume "s = []"
      then have "lower (strip s) = []" by (simp add: lower_def strip_def)
      with that show False by simp
    qed
    moreover have "lower (strip s) \<in> set [U ''present'', U ''running'', U ''current'']"
      using that by fastforce
    ultimately show ?thesis
      unfolding parse_date_def Let_def by (simp only: option.case if_False if_True)
  qed
  have d: "map_option year (parse_date now (Some s)) = Some (year now) \<and>
           map_option month (parse_date now (Some s)) = Some (month now)"
    if "parse_date now (Some s) = Some now"
    using that by simp
  from a b c d show ?thesis by blast
qed

theorem parse_date_literals_witness:
  "lower (strip (U ''  PreSent '')) = U ''present'' \<and>
   parse_date today (Some (U ''  PreSent '')) = Some today \<and>
   lower (strip (U ''RUNNING'')) = U ''running'' \<and>
   parse_date today (Some (U ''RUNNING'')) = Some today \<and>
   lower (strip (U ''current'')) = U ''current'' \<and>
   parse_date today (Some (U ''current'')) = Some today"
proof -
  have 1: "lower (strip (U ''  PreSent '')) = U ''present''"
    and 2: "lower (strip (U ''RUNNING'')) = U ''running''"
    and 3: "lower (strip (U ''current'')) = U ''current''"
    by (simp_all add: lower_def strip_def is_space_def lower_char_def)
  show ?thesis
    using parse_date_literals [of today "U ''  PreSent ''"]
      parse_date_literals [of today "U ''RUNNING''"]
      parse_date_literals [of today "U ''current''"] 1 2 3
    by simp
qed

subsection \<open>Ranges are split before any date is parsed\<close>

lemma match_classes_rest: "match_classes ps s = Some rest \<Longrightarrow> set rest \<subseteq> set s"
proof (induction ps s rule: match_classes.induct)
  case (1 s)
  then show ?case by simp
next
  case (2 p ps)
  then show ?case by simp
next
  case (3 p ps c cs)
  then show ?case by (auto split: if_splits)
qed

lemma group_matches_rest:
  "(g, rest) \<in> set (group_matches alts s) \<Longrightarrow> set rest \<subseteq> set s"
  unfolding group_matches_def
  by (auto split: option.splits dest!: match_classes_rest [OF sym])

lemma directive_matches_rest:
  "(f', rest) \<in> set (directive_matches d s f) \<Longrightarrow> set rest \<subseteq> set s"
proof (cases d)
  case (Lit c)
  then show "(f', rest) \<in> set (directive_matches d s f) \<Longrightarrow> set rest \<subseteq> set s"
    by (cases s) (auto split: if_splits)
next
  case Spaces
  then show "(f', rest) \<in> set (directive_matches d s f) \<Longrightarrow> set rest \<subseteq> set s"
    by (auto dest: in_set_dropD)
qed (auto dest: group_matches_rest)

lemma hyphen_literal_fails:
  assumes "hyphen \<notin> set s"
  shows "directive_matches (Lit hyphen) s f = []"
proof (cases s)
  case Nil
  then show ?thesis by simp
next
  case (Cons x rest)
  with assms have "x \<noteq> 45" by (simp add: hyphen_def)
  then have "lower_char x \<noteq> lower_char hyphen"
    by (auto simp: lower_char_def hyphen_def)
  with Cons show ?thesis by simp
qed

lemma hyphenated_format_fails:
  assumes "hyphen \<notin> set s"
  shows "regex_matches (d # Lit hyphen # ds) s f = []"
proof -
  have "regex_matches (Lit hyphen # ds) rest f' = []"
    if "(f', rest) \<in> set (directive_matches d s f)" for f' rest
  proof -
    from directive_matches_rest [OF that] assms have "hyphen \<notin> set rest" by blast
    then have "directive_matches (Lit hyphen) rest f' = []"
      by (rule hyphen_literal_fails)
    then show ?thesis by (simp del: directive_matches.simps)
  qed
  then show ?thesis by (auto simp del: directive_matches.simps)
qed

lemma compile_year_month:
  "compile_format (U ''%Y-%m'') = Some [Dir_Y, Lit hyphen, Dir_m]"
  "compile_format (U ''%m-%Y'') = Some [Dir_m, Lit hyphen, Dir_Y]"
  by (simp_all add: directive_of_def is_space_def hyphen_def)

lemma strptime_needs_hyphen:
  assumes "hyphen \<notin> set s"
  shows "strptime s ''%Y-%m'' = None" and "strptime s ''%m-%Y'' = None"
  unfolding strptime_def compile_year_month option.case
    hyphenated_format_fails [OF assms] list.case
  by (rule refl)+

text \<open>
  C10. A Duration with a hyphen or an en dash is split before any date is parsed:
  \<open>parse_date\<close> receives the trimmed text before the first separator and the trimmed
  text after the last one, never the Duration itself. When the separator is the hyphen,
  neither token contains a hyphen, so neither can be read by the formats \<open>%Y-%m\<close> and
  \<open>%m-%Y\<close>: a date such as \<open>03-2019\<close> is parsed as the start \<open>03\<close> and the end \<open>2019\<close>.
\<close>

theorem split_before_parse:
  "(en_dash \<in> set x \<longrightarrow>
      Start_Date_of now x = parse_date now (Some (strip (before_first en_dash x))) \<and>
      End_Date_of now x = parse_date now (Some (strip (after_last en_dash x))) \<and>
      start_token x \<noteq> x \<and> end_token x \<noteq> Some x)
   \<and> (en_dash \<notin> set x \<and> hyphen \<in> set x \<longrightarrow>
      Start_Date_of now x = parse_date now (Some (strip (before_first hyphen x))) \<and>
      End_Date_of now x = parse_date now (Some (strip (after_last hyphen x))) \<and>
      start_token x \<noteq> x \<and> end_token x \<noteq> Some x \<and>
      strptime (strip (before_first hyphen x)) ''%Y-%m'' = None \<and>
      strptime (strip (before_first hyphen x)) ''%m-%Y'' = None \<and>
      strptime (strip (after_last hyphen x)) ''%Y-%m'' = None \<and>
      strptime (strip (after_last hyphen x)) ''%m-%Y'' = None)"
proof -
  have ne: "strip (before_first sep x) \<noteq> x" "strip (after_last sep x) \<noteq> x"
    if "sep \<in> set x" for sep
    using that sep_notin_before_first [of sep x] sep_notin_after_last [of sep x] by auto
  show ?thesis
    using ne [of en_dash] ne [of hyphen]
      strptime_needs_hyphen [OF sep_notin_before_first [of hyphen x]]
      strptime_needs_hyphen [OF sep_notin_after_last [of hyphen x]]
    by (simp add: Start_Date_of_def End_Date_of_def start_token_eq end_token_eq)
qed

text \<open>Evaluating the engine on a concrete text.\<close>

lemma longest_first_months:
  "longest_first a_month =
     [''jan'', ''feb'', ''mar'', ''apr'', ''may'', ''jun'',
      ''jul'', ''aug'', ''sep'', ''oct'', ''nov'', ''dec'']"
  "longest_first f_month =
     [''september'', ''february'', ''november'', ''december'', ''january'', ''october'',
      ''august'', ''march'', ''april'', ''june'', ''july'', ''may'']"
  by (simp_all add: longest_first_def a_month_def f_month_def sort_key_def)

lemmas parse_date_eval =
  parse_date_def Let_def lower_def strip_def is_space_def lower_char_def date_formats_def
  strptime_def directive_of_def group_matches_def a_month_def f_month_def
  longest_first_months [unfolded a_month_def f_month_def]
  ignorecase_def regex_Y_def regex_m_def regex_d_def one_of_def is_digit_def is_word_def
  py_int_def make_datetime_def days_in_month_def is_leap_def months_get_def months_def
  match_word_year_def

lemmas duration_eval =
  Start_Date_of_def End_Date_of_def start_token_eq end_token_eq
  before_first_def after_last_def hyphen_def en_dash_def today_def

lemmas column_eval =
  Start_Date_column_def End_Date_column_def Calculated_Duration_column_def store_dates_def
  fits_datetime64_def calculate_duration_in_months_def

lemma parse_date_whole_token:
  "parse_date today (Some (U ''03-2019'')) = Some \<lparr>year = 2019, month = 3, day = 1\<rparr>"
  "parse_date today (Some (U ''2019-03'')) = Some \<lparr>year = 2019, month = 3, day = 1\<rparr>"
  by (simp_all add: parse_date_eval)

theorem split_before_parse_witness:
  "en_dash \<notin> set (U ''03-2019'') \<and> hyphen \<in> set (U ''03-2019'') \<and>
   Start_Date_of today (U ''03-2019'') = parse_date today (Some (U ''03'')) \<and>
   End_Date_of today (U ''03-2019'') = parse_date today (Some (U ''2019'')) \<and>
   strptime (U ''03'') ''%m-%Y'' = None \<and> strptime (U ''2019'') ''%m-%Y'' = None \<and>
   en_dash \<in> set (U ''Jan 2019 '' @ [en_dash] @ U '' Present'') \<and>
   Start_Date_of today (U ''Jan 2019 '' @ [en_dash] @ U '' Present'')
     = parse_date today (Some (U ''Jan 2019'')) \<and>
   End_Date_of today (U ''Jan 2019 '' @ [en_dash] @ U '' Present'')
     = parse_date today (Some (U ''Present''))"
proof -
  have h: "en_dash \<notin> set (U ''03-2019'')" "hyphen \<in> set (U ''03-2019'')"
    by (simp_all add: hyphen_def en_dash_def)
  have ht: "strip (before_first hyphen (U ''03-2019'')) = U ''03''"
    "strip (after_last hyphen (U ''03-2019'')) = U ''2019''"
    by (simp_all add: hyphen_def before_first_def after_last_def strip_def is_space_def)
  have e: "en_dash \<in> set (U ''Jan 2019 '' @ [en_dash] @ U '' Present'')"
    by simp
  have et: "strip (before_first en_dash (U ''Jan 2019 '' @ [en_dash] @ U '' Present''))
              = U ''Jan 2019''"
    "strip (after_last en_dash (U ''Jan 2019 '' @ [en_dash] @ U '' Present'')) = U ''Present''"
    by (simp_all add: en_dash_def before_first_def after_last_def strip_def is_space_def)
  from split_before_parse [of "U ''03-2019''" today] h
  have 1: "Start_Date_of today (U ''03-2019'') = parse_date today (Some (U ''03'')) \<and>
      End_Date_of today (U ''03-2019'') = parse_date today (Some (U ''2019'')) \<and>
      strptime (U ''03'') ''%m-%Y'' = None \<and> strptime (U ''2019'') ''%m-%Y'' = None"
    unfolding ht by blast
  from split_before_parse [of "U ''Jan 2019 '' @ [en_dash] @ U '' Present''" today] e
  have 2: "Start_Date_of today (U ''Jan 2019 '' @ [en_dash] @ U '' Present'')
       = parse_date today (Some (U ''Jan 2019'')) \<and>
     End_Date_of today (U ''Jan 2019 '' @ [en_dash] @ U '' Present'')
       = parse_date today (Some (U ''Present''))"
    unfolding et by blast
  from h e 1 2 show ?thesis by blast
qed

lemma hyphenated_date_as_range:
  "Start_Date_of today (U ''03-2019'') = None"
  "End_Date_of today (U ''03-2019'') = Some \<lparr>year = 2019, month = 1, day = 1\<rparr>"
  "Start_Date_of today (U ''2019-03'') = Some \<lparr>year = 2019, month = 1, day = 1\<rparr>"
  "End_Date_of today (U ''2019-03'') = None"
  by (simp_all add: parse_date_eval duration_eval)


text \<open>The examples of the specification.\<close>

lemma parse_date_examples:
  "parse_date today (Some (U ''Mar 2019'')) = Some \<lparr>year = 2019, month = 3, day = 1\<rparr>"
  "parse_date today (Some (U ''March 2019'')) = Some \<lparr>year = 2019, month = 3, day = 1\<rparr>"
  "parse_date today (Some (U ''2019'')) = Some \<lparr>year = 2019, month = 1, day = 1\<rparr>"
  "parse_date today (Some (U ''Sept 2019'')) = Some \<lparr>year = 2019, month = 9, day = 1\<rparr>"
  "parse_date today (Some (U ''31 Feb 2019'')) = Some \<lparr>year = 2019, month = 2, day = 1\<rparr>"
  "parse_date today (Some (U ''03'')) = None"
  by (simp_all add: parse_date_eval)

lemma start_end_examples:
  "Start_Date_of today from_2020_to_2022 = Some \<lparr>year = 2020, month = 1, day = 1\<rparr>"
  "End_Date_of today from_2020_to_2022 = Some \<lparr>year = 2022, month = 1, day = 1\<rparr>"
  "Start_Date_of today mar_2019 = Some \<lparr>year = 2019, month = 3, day = 1\<rparr>"
  "End_Date_of today mar_2019 = None"
  "Start_Date_of today [] = None"
  "End_Date_of today [] = None"
  by (simp_all add: parse_date_eval duration_eval from_2020_to_2022_def mar_2019_def)

lemma jan_2019_to_present:
  "Start_Date_of today jan_2019_present = Some \<lparr>year = 2019, month = 1, day = 1\<rparr>"
  "End_Date_of today jan_2019_present = Some today"
proof -
  have s: "start_token jan_2019_present = U ''Jan 2019''"
    and e: "end_token jan_2019_present = Some (U ''Present'')"
    by (simp_all add: jan_2019_present_def start_token_eq end_token_eq before_first_def
        after_last_def en_dash_def strip_def is_space_def)
  have p: "parse_date today (Some (U ''Jan 2019'')) = Some \<lparr>year = 2019, month = 1, day = 1\<rparr>"
    and q: "parse_date today (Some (U ''Present'')) = Some today"
    by (simp_all add: parse_date_eval)
  show "Start_Date_of today jan_2019_present = Some \<lparr>year = 2019, month = 1, day = 1\<rparr>"
    unfolding Start_Date_of_def s p by (rule refl)
  show "End_Date_of today jan_2019_present = Some today"
    unfolding End_Date_of_def e q by (rule refl)
qed

text \<open>Frames of one row: the counts of the specification's examples.\<close>

lemma single_row_counts:
  "Calculated_Duration_column today [from_2020_to_2022] = [24]"
  "Calculated_Duration_column today [jan_2019_present] = [94]"
  "Calculated_Duration_column today [[]] = [0]"
  unfolding column_eval list.map start_end_examples jan_2019_to_present
  by (simp_all add: today_def)

subsection \<open>An unresolved end in a column that holds a date\<close>

lemma store_dates_nth:
  assumes "i < length col"
  shows "store_dates col ! i =
     (case col ! i of
        Some d \<Rightarrow> Date d
      | None \<Rightarrow>
          if list_ex (\<lambda>v. case v of None \<Rightarrow> False | Some d \<Rightarrow> True) col \<and>
             list_all (\<lambda>v. case v of None \<Rightarrow> True | Some d \<Rightarrow> fits_datetime64 d) col
          then NaT else PyNone)"
  using assms by (simp add: store_dates_def split: option.splits)

lemma length_store_dates: "length (store_dates col) = length col"
  by (simp add: store_dates_def)

lemma Calculated_Duration_column_nth:
  assumes "i < length durations"
  shows "Calculated_Duration_column now durations ! i =
     (case calculate_duration_in_months now (Start_Date_column now durations ! i)
             (End_Date_column now durations ! i) of
        None \<Rightarrow> 0
      | Some n \<Rightarrow> n)"
  using assms
  by (simp add: Calculated_Duration_column_def Start_Date_column_def End_Date_column_def
      length_store_dates)

text \<open>
  In a frame where some row has a resolved end, a row with a resolved start and an
  unresolved end gets the count 0, not the months up to the current date. In a frame
  where no row has a resolved end, it gets the months up to the current date.
\<close>

lemma unresolved_end_beside_date:
  assumes i: "i < length durations" and j: "j < length durations"
    and s: "Start_Date_of now (durations ! i) = Some s"
    and e: "End_Date_of now (durations ! i) = None"
    and e': "End_Date_of now (durations ! j) = Some e'"
    and fits: "\<forall>x \<in> set durations. \<forall>d. End_Date_of now x = Some d \<longrightarrow> fits_datetime64 d"
  shows "Calculated_Duration_column now durations ! i = 0"
proof -
  let ?col = "map (End_Date_of now) durations"
  have "durations ! j \<in> set durations" using j by simp
  with e' have "Some e' \<in> set ?col" by force
  then have ex: "list_ex (\<lambda>v. case v of None \<Rightarrow> False | Some d \<Rightarrow> True) ?col"
    unfolding list_ex_iff by (rule bexI [rotated]) simp
  have all: "list_all (\<lambda>v. case v of None \<Rightarrow> True | Some d \<Rightarrow> fits_datetime64 d) ?col"
    unfolding list_all_iff using fits by (auto split: option.splits)
  have "End_Date_column now durations ! i = NaT"
    unfolding End_Date_column_def using i e ex all by (simp add: store_dates_nth)
  moreover have "Start_Date_column now durations ! i = Date s"
    unfolding Start_Date_column_def using i s by (simp add: store_dates_nth)
  ultimately show ?thesis
    using i by (simp add: Calculated_Duration_column_nth month_count_on_dates)
qed

lemma unresolved_end_alone:
  assumes i: "i < length durations"
    and s: "Start_Date_of now (durations ! i) = Some s"
    and none: "\<forall>x \<in> set durations. End_Date_of now x = None"
  shows "Calculated_Duration_column now durations ! i =
           (year now - year s) * 12 + (month now - month s)"
proof -
  let ?col = "map (End_Date_of now) durations"
  have "\<not> list_ex (\<lambda>v. case v of None \<Rightarrow> False | Some d \<Rightarrow> True) ?col"
    unfolding list_ex_iff using none by auto
  moreover have "?col ! i = None" using i none by simp
  ultimately have "End_Date_column now durations ! i = PyNone"
    unfolding End_Date_column_def using i by (simp add: store_dates_nth)
  moreover have "Start_Date_column now durations ! i = Date s"
    unfolding Start_Date_column_def using i s by (simp add: store_dates_nth)
  ultimately show ?thesis
    using i by (simp add: Calculated_Duration_column_nth month_count_on_dates)
qed

text \<open>
  C4 fails on the code where the claim is right. \<open>calculate_duration_in_months\<close> tests
  \<open>end is None\<close> to put the current date in place of an unresolved end, but the end it is
  given comes from the \<open>End_Date\<close> column, and pandas stores a missing value of a column
  that holds a date as \<open>NaT\<close>. In the frame with the durations \<open>Mar 2019\<close> and
  \<open>2020-2022\<close>, processed on 4 November 2026, the first row has a resolved start and an
  unresolved end: its end is \<open>NaT\<close>, its count is \<open>NaN\<close>, and line 254 stores 0. The
  claim gives the 92 months from March 2019 to the current date, which is what the
  code stores when the row is alone in the frame.
\<close>

theorem unresolved_end_stored_as_zero:
  "Start_Date_column today [mar_2019, from_2020_to_2022] =
     [Date \<lparr>year = 2019, month = 3, day = 1\<rparr>, Date \<lparr>year = 2020, month = 1, day = 1\<rparr>] \<and>
   End_Date_column today [mar_2019, from_2020_to_2022] =
     [NaT, Date \<lparr>year = 2022, month = 1, day = 1\<rparr>] \<and>
   Calculated_Duration_column today [mar_2019, from_2020_to_2022] = [0, 24] \<and>
   Calculated_Duration_column today [mar_2019] = [92]"
  unfolding column_eval list.map start_end_examples
  by (simp add: today_def)


section \<open>Properties of the database operations\<close>

lemma placeholders_count:
  "placeholders select_sql = 2"
  "placeholders insert_sql = 9"
  "placeholders update_sql = 8"
  by (simp_all add: placeholders_def select_sql_def insert_sql_def update_sql_def)

lemma existing_count_zero:
  "execute select_sql [SText m, SText d] (\<lambda>values. Inr (run_select values db)) =
     Inr (length (filter (\<lambda>r. mobile r = m \<and> created_at r < d) db))"
  by (simp add: execute_def placeholders_count)

lemma insert_executed:
  "execute insert_sql [n, SText m, e, g, c, ro, cd, te, SText ca] (\<lambda>values. run_insert values db) =
     (if \<exists>r \<in> set db. mobile r = m then Inl IntegrityError
      else Inr (db @ [\<lparr> name = n, mobile = m, email = e, graduation = g, company = c,
                        role = ro, calculated_duration = cd, total_experience = te,
                        created_at = ca \<rparr>]))"
  by (simp add: execute_def placeholders_count)

lemma insert_resume_data_cases:
  "insert_resume_data d row db =
     (if \<exists>r \<in> set db. mobile r = row_Mobile row \<and> created_at r < d then (Skipping, db)
      else if \<exists>r \<in> set db. mobile r = row_Mobile row then (Error_processing IntegrityError, db)
      else (Inserted,
            db @ [\<lparr> name = row_Name row, mobile = row_Mobile row, email = row_Email row,
                     graduation = row_Graduation row, company = row_Company row,
                     role = row_Role row, calculated_duration = row_Calculated_Duration row,
                     total_experience = row_Total_Experience row, created_at = d \<rparr>]))"
  unfolding insert_resume_data_def existing_count_zero insert_executed
  by (auto simp: filter_empty_conv)

text \<open>
  C8. \<open>insert_resume_data\<close> takes the skip branch exactly when the table has a record for
  the row's mobile that was created before the current date, and the skip leaves the
  table as it is. When the table has a record for that mobile created on the current
  date, the table is left as it is too: nothing is merged or replaced. When the table
  has no record for the mobile, the row is inserted with the current date.
\<close>

theorem insert_skips_older_record:
  "(fst (insert_resume_data current_date row db) = Skipping \<longleftrightarrow>
      (\<exists>r \<in> set db. mobile r = row_Mobile row \<and> created_at r < current_date))
   \<and> ((\<exists>r \<in> set db. mobile r = row_Mobile row \<and> created_at r < current_date) \<longrightarrow>
        insert_resume_data current_date row db = (Skipping, db))
   \<and> ((\<exists>r \<in> set db. mobile r = row_Mobile row \<and> created_at r = current_date) \<longrightarrow>
        snd (insert_resume_data current_date row db) = db)
   \<and> (\<not> (\<exists>r \<in> set db. mobile r = row_Mobile row) \<longrightarrow>
        insert_resume_data current_date row db =
          (Inserted,
           db @ [\<lparr> name = row_Name row, mobile = row_Mobile row, email = row_Email row,
                    graduation = row_Graduation row, company = row_Company row,
                    role = row_Role row, calculated_duration = row_Calculated_Duration row,
                    total_experience = row_Total_Experience row,
                    created_at = current_date \<rparr>]))"
  unfolding insert_resume_data_cases by auto

theorem insert_skips_older_record_witness:
  "(\<exists>r \<in> set [ada_stored (U ''2026-11-03'')].
      mobile r = row_Mobile ada_row \<and> created_at r < U ''2026-11-04'') \<and>
   insert_resume_data (U ''2026-11-04'') ada_row [ada_stored (U ''2026-11-03'')]
     = (Skipping, [ada_stored (U ''2026-11-03'')]) \<and>
   (\<exists>r \<in> set [ada_stored (U ''2026-11-04'')].
      mobile r = row_Mobile ada_row \<and> created_at r = U ''2026-11-04'') \<and>
   fst (insert_resume_data (U ''2026-11-04'') ada_row [ada_stored (U ''2026-11-04'')]) \<noteq> Skipping \<and>
   snd (insert_resume_data (U ''2026-11-04'') ada_row [ada_stored (U ''2026-11-04'')])
     = [ada_stored (U ''2026-11-04'')] \<and>
   \<not> (\<exists>r \<in> set []. mobile r = row_Mobile ada_row) \<and>
   fst (insert_resume_data (U ''2026-11-04'') ada_row []) = Inserted"
  using insert_skips_older_record [of "U ''2026-11-04''" ada_row "[ada_stored (U ''2026-11-03'')]"]
    insert_skips_older_record [of "U ''2026-11-04''" ada_row "[ada_stored (U ''2026-11-04'')]"]
    insert_skips_older_record [of "U ''2026-11-04''" ada_row "[]"]
  by (simp add: ada_row_def ada_stored_def)

text \<open>A record of the same day makes the insert fail on the primary key; the handler catches it.\<close>

lemma insert_same_day:
  "insert_resume_data (U ''2026-11-04'') ada_row [ada_stored (U ''2026-11-04'')] =
     (Error_processing IntegrityError, [ada_stored (U ''2026-11-04'')])"
  unfolding insert_resume_data_cases by (simp add: ada_row_def ada_stored_def)

text \<open>
  C9. \<open>update_resume\<close> never changes the table: its statement has 8 placeholders and the
  tuple has 9 values, so \<open>execute\<close> raises ProgrammingError, which the handler catches.
\<close>

theorem update_resume_changes_nothing:
  "placeholders update_sql = 8 \<and> length (update_values row) = 9 \<and>
   update_resume row db = (Some ProgrammingError, db)"
  by (simp add: update_resume_def execute_def placeholders_count update_values_def)

text \<open>With the first eight values only, the same statement would run and change the record.\<close>

lemma update_with_eight_values:
  "execute update_sql (butlast (update_values ada_edited))
       (\<lambda>values. run_update values [ada_stored (U ''2026-11-03'')]) =
     Inr [\<lparr> name = SText (U ''Ada''), mobile = U ''9876543210'', email = SNull,
            graduation = SText (U ''BSc - MIT''), company = SText (U ''A''),
            role = SText (U ''Dev''), calculated_duration = SInt 24,
            total_experience = SInt 24, created_at = U ''2026-11-03'' \<rparr>]"
  by (simp add: execute_def placeholders_count update_values_def ada_edited_def ada_stored_def)


section \<open>Properties of the aggregation\<close>

lemma overall_exp_keys:
  assumes "overall_exp df = Inr totals"
  shows "map fst totals = remdups (map Mobile df)" and "distinct (map fst totals)"
  using assms by (auto simp: overall_exp_def comp_def split: if_splits)

lemma overall_exp_total:
  assumes "overall_exp df = Inr totals" and "(k, t) \<in> set totals"
  shows "t = sum_list (map Calculated_Duration (filter (\<lambda>r. Mobile r = k) df))"
  using assms by (auto simp: overall_exp_def split: if_splits)

text \<open>A row whose Mobile is a text is kept, keyed by the digits of that text.\<close>

lemma cleaned_text_mobile:
  assumes "r \<in> set df" and "Mobile r = JStr s"
  shows "r\<lparr> Mobile := JStr (filter is_digit s) \<rparr> \<in> set (cleaned repr df)"
proof -
  have "r\<lparr> Mobile := flatten_mobile repr (Mobile r) \<rparr>
          \<in> set (map (\<lambda>r. r\<lparr> Mobile := flatten_mobile repr (Mobile r) \<rparr>) df)"
    using assms(1) by simp
  then show ?thesis
    using assms(2) by (simp add: cleaned_def dropna_Mobile_def)
qed

text \<open>The two spellings of one number share a key, and their months are summed.\<close>

lemma same_mobile_one_entry:
  "overall_exp (cleaned no_repr
     [stint ''Ada'' (JStr (U ''987-654-3210'')) 12, stint ''Ada'' (JStr (U ''9876543210'')) 30])
   = Inr [(JStr (U ''9876543210''), 42)]"
  by (simp add: overall_exp_def cleaned_def dropna_Mobile_def stint_def is_digit_def)

text \<open>A row whose Mobile is an empty list is dropped.\<close>

lemma empty_list_mobile_dropped:
  "aggregate no_repr [stint ''Ann'' (JArr []) 12] = Inr []"
  by (simp add: aggregate_def merge_on_Mobile_def overall_exp_def cleaned_def
      dropna_Mobile_def stint_def)

text \<open>
  C3 fails on the code where the claim is right. The comment of line 72 announces the
  removal of the rows with an empty Mobile, but \<open>dropna\<close> removes only \<open>None\<close>, and the empty
  text that \<open>flatten_mobile\<close> returns for a mobile without digits is not \<open>None\<close>. Two
  candidates without a number, Ann with Mobile \<open>""\<close> and Bob with Mobile \<open>"N/A"\<close>, stay in
  the frame, are grouped under the key \<open>""\<close>, and each is given the sum of both.
\<close>

theorem empty_mobile_is_aggregated:
  "overall_exp (cleaned no_repr [stint ''Ann'' (JStr []) 12, stint ''Bob'' (JStr (U ''N/A'')) 30])
     = Inr [(JStr [], 42)] \<and>
   aggregate no_repr [stint ''Ann'' (JStr []) 12, stint ''Bob'' (JStr (U ''N/A'')) 30]
     = Inr [stint_total ''Ann'' (JStr []) 12 42, stint_total ''Bob'' (JStr []) 30 42]"
  by (simp add: aggregate_def merge_on_Mobile_def overall_exp_def cleaned_def
      dropna_Mobile_def stint_def stint_total_def is_digit_def)


text \<open>A Mobile that is a JSON object passes \<open>flatten_mobile\<close> and \<open>dropna\<close> and stops \<open>groupby\<close>.\<close>

lemma unhashable_mobile_raises:
  "aggregate no_repr [stint ''Ann'' (JObj [(U ''home'', JStr (U ''123''))]) 12] = Inl TypeError"
  by (simp add: aggregate_def overall_exp_def cleaned_def dropna_Mobile_def stint_def)

end
